theory Spec2Isabelle
  imports Main "HOL-Library.AList" "HOL-Library.Sublist"
begin

section \<open>The Tuya config-entry adapter (homeassistant/components/tuya/\_\_init\_\_.py)\<close>

text \<open>
  The module binds one config entry to one vendor session manager, mirrors the vendor's
  device map into the host's device registry and relays listener callbacks. Python objects
  that are shared and mutated (the \<open>Manager\<close>, the \<open>ConfigEntry\<close>) live in stores indexed by
  a reference; every dict is an association list whose keys are looked up with
  \<open>map_of\<close>; an exception is the \<open>Inl\<close> branch of the result, next to the state reached
  when it was raised.
\<close>

subsection \<open>Values, exceptions and the constants of \<open>.const\<close>\<close>

datatype pyval = PNone | PStr string | PInt int | PDict "(string \<times> pyval) list"

datatype exn =
    ConfigEntryAuthFailed string
  | KeyError string
  | IndexError
  | External string

text \<open>
  The module \<open>.const\<close> is not part of the sources at hand, so the constants imported from
  it (and \<open>__version__\<close> of \<open>homeassistant.const\<close>) are a parameter of every function.
\<close>

record const =
  CONF_APP_TYPE :: string
  DOMAIN :: string
  PLATFORMS :: "string list"
  TUYA_DISCOVERY_NEW :: string
  TUYA_HA_SIGNAL_UPDATE_ENTITY :: string
  CONF_TERMINAL_ID :: string
  CONF_TOKEN_INFO :: string
  CONF_USER_CODE :: string
  TUYA_CLIENT_ID :: string
  CONF_ENDPOINT :: string
  HA_VERSION :: string

subsection \<open>Objects\<close>

record CustomerDevice =
  cd_id :: string
  cd_name :: string
  cd_product_name :: string
  cd_status :: pyval

record TokenListener =
  tl_ref :: nat
  tl_entry :: nat

record DeviceListener =
  dl_ref :: nat
  dl_manager :: nat

text \<open>
  The vendor's \<open>Manager\<close>: the constructor's arguments, and the attributes the adapter
  reads (\<open>device_map\<close>, \<open>mq\<close>) or changes through the vendor's methods.
\<close>

record Manager =
  client_id :: string
  user_code :: pyval
  terminal_id :: pyval
  end_point :: pyval
  token_response :: pyval
  token_listener :: TokenListener
  device_map :: "(string \<times> CustomerDevice) list"
  mq :: "unit option"
  device_listeners :: "nat list"

record HomeAssistantTuyaData =
  tuya_manager :: nat
  tuya_listener :: DeviceListener

record ConfigEntry =
  entry_id :: string
  entry_data :: "(string \<times> pyval) list"

record DeviceEntry =
  de_id :: nat
  de_config_entries :: "string list"
  de_identifiers :: "(string \<times> string) list"
  de_manufacturer :: "string option"
  de_name :: "string option"
  de_model :: "string option"

text \<open>Calls made to the vendor library and to the host, in the order they are made.\<close>

datatype call =
    LoggerDebug string "pyval list"
  | ManagerInit nat
  | AddDeviceListener nat nat
  | RemoveDeviceListener nat nat
  | ReportVersion nat string string string
  | UpdateDeviceCache nat
  | RefreshMq nat
  | MqStop nat
  | Unload nat
  | ForwardEntrySetups nat "string list"
  | UnloadPlatforms nat "string list"
  | DispatcherSend string "string list option"
  | AddJobAsyncRemoveDevice nat string
  | AsyncUpdateEntry nat "(string \<times> pyval) list"

text \<open>
  The host: \<open>hass_data\<close> is \<open>hass.data.get(DOMAIN)\<close> (\<open>None\<close> when the key is absent,
  otherwise the dict from entry id to session), \<open>managers\<close> and \<open>config_entries\<close> are the
  stores of the shared objects, \<open>next_ref\<close> is the next unused object reference, and
  \<open>device_registry\<close> is \<open>dr.async_get(hass).devices\<close>, each entry under its own \<open>de_id\<close>.
\<close>

record HomeAssistant =
  hass_data :: "(string \<times> HomeAssistantTuyaData) list option"
  managers :: "nat \<Rightarrow> Manager"
  config_entries :: "nat \<Rightarrow> ConfigEntry"
  next_ref :: nat
  device_registry :: "DeviceEntry list"
  calls :: "call list"

text \<open>
  What the outside world answers during one operation: for each call that leaves the
  module and may fail, whether it raises, and what it returns.
\<close>

record Manifest =
  mf_version :: "string option"
  mf_requirements :: "string list option"

record env =
  async_get_integration :: "exn + Manifest"
  report_version_raises :: "exn option"
  update_device_cache_result :: "exn + (string \<times> CustomerDevice) list"
  forward_entry_setups_raises :: "exn option"
  refresh_mq_raises :: "exn option"
  unload_platforms_result :: "exn + bool"
  mq_stop_raises :: "exn option"
  remove_device_listener_raises :: "exn option"
  unload_raises :: "exn option"

subsection \<open>Helpers: dict access, logging, external calls\<close>

definition getitem :: "(string \<times> 'v) list \<Rightarrow> string \<Rightarrow> exn + 'v" where
  "getitem d k = (case map_of d k of None \<Rightarrow> Inl (KeyError k) | Some v \<Rightarrow> Inr v)"

definition record_call :: "call \<Rightarrow> HomeAssistant \<Rightarrow> HomeAssistant" where
  "record_call cl hass = hass\<lparr>calls := calls hass @ [cl]\<rparr>"

definition external :: "call \<Rightarrow> exn option \<Rightarrow> HomeAssistant \<Rightarrow> HomeAssistant \<times> (exn + unit)" where
  "external cl outcome hass =
     (record_call cl hass, case outcome of None \<Rightarrow> Inr () | Some x \<Rightarrow> Inl x)"

subsection \<open>The host's device registry\<close>

text \<open>
  Modelled from the spec: the host's device registry (\<open>homeassistant.helpers.device_registry\<close>)
  is not part of the sources; the spec lists its operations as lookup-by-identifiers,
  remove-by-internal-id and get-or-create. Lookup returns an entry that carries one of the
  given identifiers.
\<close>

definition dr_async_get_device :: "DeviceEntry list \<Rightarrow> (string \<times> string) list \<Rightarrow> DeviceEntry option" where
  "dr_async_get_device devices identifiers =
     find (\<lambda>e. \<exists>i \<in> set identifiers. i \<in> set (de_identifiers e)) devices"

text \<open>Modelled from the spec: remove-by-internal-id drops the entry stored under the id.\<close>

definition dr_async_remove_device :: "DeviceEntry list \<Rightarrow> nat \<Rightarrow> DeviceEntry list" where
  "dr_async_remove_device devices device_id = filter (\<lambda>e. de_id e \<noteq> device_id) devices"

definition fresh_id :: "DeviceEntry list \<Rightarrow> nat" where
  "fresh_id devices = Suc (fold max (map de_id devices) 0)"

definition merge_list :: "'a list \<Rightarrow> 'a list \<Rightarrow> 'a list" where
  "merge_list old new = old @ filter (\<lambda>x. x \<notin> set old) new"

text \<open>
  Modelled from the spec: get-or-create(identifiers, manufacturer, name, model) returns the
  registry with the entry found by the identifiers updated (config entry and identifiers
  merged in, descriptive fields overwritten), or with a new entry under an unused id.
\<close>

definition dr_async_get_or_create ::
    "DeviceEntry list \<Rightarrow> string \<Rightarrow> (string \<times> string) list \<Rightarrow> string \<Rightarrow> string \<Rightarrow> string \<Rightarrow> DeviceEntry list" where
  "dr_async_get_or_create devices config_entry_id identifiers manufacturer name model =
     (case dr_async_get_device devices identifiers of
        None \<Rightarrow>
          devices @ [\<lparr>de_id = fresh_id devices, de_config_entries = [config_entry_id],
                      de_identifiers = identifiers, de_manufacturer = Some manufacturer,
                      de_name = Some name, de_model = Some model\<rparr>]
      | Some found \<Rightarrow>
          map (\<lambda>e. if de_id e = de_id found
                   then e\<lparr>de_config_entries := merge_list (de_config_entries e) [config_entry_id],
                          de_identifiers := merge_list (de_identifiers e) identifiers,
                          de_manufacturer := Some manufacturer,
                          de_name := Some name, de_model := Some model\<rparr>
                   else e) devices)"

subsection \<open>\<open>report_version\<close>\<close>

text \<open>\<open>needle in s\<close> on strings, and \<open>s.split("==")\<close>.\<close>

fun contains :: "string \<Rightarrow> string \<Rightarrow> bool" where
  "contains needle [] = (needle = [])"
| "contains needle (x # xs) = (prefix needle (x # xs) \<or> contains needle xs)"

fun split_eqeq :: "string \<Rightarrow> string \<Rightarrow> string list" where
  "split_eqeq acc [] = [rev acc]"
| "split_eqeq acc [x] = [rev (x # acc)]"
| "split_eqeq acc (x # y # rest) =
     (if x = CHR ''='' \<and> y = CHR ''='' then rev acc # split_eqeq [] rest
      else split_eqeq (x # acc) (y # rest))"

text \<open>The loop over the requirements; \<open>item.split("==")[1]\<close> raises when there is no separator.\<close>

fun sharing_sdk_loop :: "string list \<Rightarrow> string \<Rightarrow> exn + string" where
  "sharing_sdk_loop [] sharing_sdk = Inr sharing_sdk"
| "sharing_sdk_loop (item # items) sharing_sdk =
     (if contains ''device-sharing-sdk'' item
      then (case split_eqeq [] item of
              _ # v # _ \<Rightarrow> sharing_sdk_loop items v
            | _ \<Rightarrow> Inl IndexError)
      else sharing_sdk_loop items sharing_sdk)"

definition report_version :: "const \<Rightarrow> env \<Rightarrow> HomeAssistant \<Rightarrow> nat \<Rightarrow> HomeAssistant \<times> (exn + unit)" where
  "report_version c env hass manager =
     (case async_get_integration env of
        Inl x \<Rightarrow> (hass, Inl x)
      | Inr manifest \<Rightarrow>
          (let tuya_version = (case mf_version manifest of None \<Rightarrow> ''unknown'' | Some v \<Rightarrow> v);
               sdk_version = (case mf_requirements manifest of
                                None \<Rightarrow> map (\<lambda>ch. [ch]) ''unknown'' | Some r \<Rightarrow> r)
           in case sharing_sdk_loop sdk_version [] of
                Inl x \<Rightarrow> (hass, Inl x)
              | Inr sharing_sdk \<Rightarrow>
                  external (ReportVersion manager (HA_VERSION c) tuya_version sharing_sdk)
                    (report_version_raises env) hass))"

subsection \<open>\<open>cleanup_device_registry\<close>\<close>

text \<open>
  The inner loop over the identifiers of one entry: the first identifier of this domain
  that is not a key of the device map removes the entry and leaves the loop.
\<close>

fun cleanup_identifiers ::
    "const \<Rightarrow> (string \<times> CustomerDevice) list \<Rightarrow> nat \<Rightarrow> (string \<times> string) list \<Rightarrow> DeviceEntry list \<Rightarrow> DeviceEntry list" where
  "cleanup_identifiers c dm dev_id [] devices = devices"
| "cleanup_identifiers c dm dev_id (item # items) devices =
     (if fst item = DOMAIN c \<and> map_of dm (snd item) = None
      then dr_async_remove_device devices dev_id
      else cleanup_identifiers c dm dev_id items devices)"

text \<open>The outer loop, over the snapshot \<open>list(device_registry.devices.items())\<close>.\<close>

fun cleanup_devices ::
    "const \<Rightarrow> (string \<times> CustomerDevice) list \<Rightarrow> (nat \<times> DeviceEntry) list \<Rightarrow> DeviceEntry list \<Rightarrow> DeviceEntry list" where
  "cleanup_devices c dm [] devices = devices"
| "cleanup_devices c dm ((dev_id, device_entry) # rest) devices =
     cleanup_devices c dm rest
       (cleanup_identifiers c dm dev_id (de_identifiers device_entry) devices)"

definition cleanup_device_registry :: "const \<Rightarrow> HomeAssistant \<Rightarrow> nat \<Rightarrow> HomeAssistant" where
  "cleanup_device_registry c hass device_manager =
     hass\<lparr>device_registry :=
            cleanup_devices c (device_map (managers hass device_manager))
              (map (\<lambda>e. (de_id e, e)) (device_registry hass)) (device_registry hass)\<rparr>"

subsection \<open>\<open>async_setup_entry\<close>\<close>

text \<open>Sequencing: an exception ends the operation in the state reached so far.\<close>

definition seq ::
    "(HomeAssistant \<Rightarrow> HomeAssistant \<times> (exn + 'a)) \<Rightarrow> ('a \<Rightarrow> HomeAssistant \<Rightarrow> HomeAssistant \<times> (exn + 'b))
      \<Rightarrow> HomeAssistant \<Rightarrow> HomeAssistant \<times> (exn + 'b)" where
  "seq m f hass = (case m hass of (hass', Inl x) \<Rightarrow> (hass', Inl x) | (hass', Inr a) \<Rightarrow> f a hass')"

text \<open>
  Lines 53 to 68, the branch that creates the session: the token listener, the manager
  and the device listener are new objects, in this order; the four credentials are read
  with \<open>entry.data[...]\<close> before the manager is constructed. The vendor's constructor and
  \<open>add_device_listener\<close> are outside the sources: a new manager has an empty device map
  and no push channel, and the listener is appended to its listeners.
\<close>

definition create_session ::
    "const \<Rightarrow> HomeAssistant \<Rightarrow> nat \<Rightarrow> (string \<times> HomeAssistantTuyaData) list \<Rightarrow> HomeAssistant \<times> (exn + nat)" where
  "create_session c hass entry ns =
     (let token_listener = \<lparr>tl_ref = next_ref hass, tl_entry = entry\<rparr>;
          hass1 = hass\<lparr>next_ref := Suc (next_ref hass)\<rparr>;
          d = entry_data (config_entries hass entry)
      in case getitem d (CONF_USER_CODE c) of Inl x \<Rightarrow> (hass1, Inl x) | Inr uc \<Rightarrow>
        (case getitem d (CONF_TERMINAL_ID c) of Inl x \<Rightarrow> (hass1, Inl x) | Inr tid \<Rightarrow>
        (case getitem d (CONF_ENDPOINT c) of Inl x \<Rightarrow> (hass1, Inl x) | Inr ep \<Rightarrow>
        (case getitem d (CONF_TOKEN_INFO c) of Inl x \<Rightarrow> (hass1, Inl x) | Inr ti \<Rightarrow>
          (let manager = next_ref hass1;
               listener = \<lparr>dl_ref = Suc manager, dl_manager = manager\<rparr>;
               m = \<lparr>client_id = TUYA_CLIENT_ID c, user_code = uc, terminal_id = tid,
                    end_point = ep, token_response = ti, token_listener = token_listener,
                    device_map = [], mq = None, device_listeners = [dl_ref listener]\<rparr>
           in (hass1\<lparr>managers := (managers hass1)(manager := m),
                     next_ref := Suc (Suc manager),
                     calls := calls hass1 @ [ManagerInit manager, AddDeviceListener manager (dl_ref listener)],
                     hass_data := Some (AList.update (entry_id (config_entries hass entry))
                                          \<lparr>tuya_manager = manager, tuya_listener = listener\<rparr> ns)\<rparr>,
               Inr manager))))))"

text \<open>Lines 52 to 71: the manager of the stored session, or of a session created now.\<close>

definition session_manager :: "const \<Rightarrow> nat \<Rightarrow> HomeAssistant \<Rightarrow> HomeAssistant \<times> (exn + nat)" where
  "session_manager c entry hass =
     (case hass_data hass of
        None \<Rightarrow> (hass, Inl (KeyError (DOMAIN c)))
      | Some ns \<Rightarrow>
          (case map_of ns (entry_id (config_entries hass entry)) of
             None \<Rightarrow> create_session c hass entry ns
           | Some tuya \<Rightarrow> (hass, Inr (tuya_manager tuya))))"

text \<open>
  Modelled from the spec: the vendor's \<open>update_device_cache\<close> is outside the sources; it
  refreshes the manager's device map (here to the map the outside world answers) or raises.
\<close>

definition update_device_cache :: "env \<Rightarrow> nat \<Rightarrow> HomeAssistant \<Rightarrow> HomeAssistant \<times> (exn + unit)" where
  "update_device_cache env manager hass =
     (let hass1 = record_call (UpdateDeviceCache manager) hass
      in case update_device_cache_result env of
           Inl x \<Rightarrow> (hass1, Inl x)
         | Inr dm \<Rightarrow>
             (hass1\<lparr>managers := (managers hass1)(manager := (managers hass1 manager)\<lparr>device_map := dm\<rparr>)\<rparr>,
              Inr ()))"

text \<open>
  Modelled from the spec: the vendor's \<open>refresh_mq\<close> is outside the sources; it opens the
  push channel of the manager or raises.
\<close>

definition refresh_mq :: "env \<Rightarrow> nat \<Rightarrow> HomeAssistant \<Rightarrow> HomeAssistant \<times> (exn + unit)" where
  "refresh_mq env manager hass =
     (let hass1 = record_call (RefreshMq manager) hass
      in case refresh_mq_raises env of
           Some x \<Rightarrow> (hass1, Inl x)
         | None \<Rightarrow>
             (hass1\<lparr>managers := (managers hass1)(manager := (managers hass1 manager)\<lparr>mq := Some ()\<rparr>)\<rparr>,
              Inr ()))"

text \<open>Lines 80 to 88: the loop over \<open>manager.device_map.values()\<close>.\<close>

fun register_devices :: "const \<Rightarrow> string \<Rightarrow> CustomerDevice list \<Rightarrow> DeviceEntry list \<Rightarrow> DeviceEntry list" where
  "register_devices c config_entry_id [] devices = devices"
| "register_devices c config_entry_id (device # rest) devices =
     register_devices c config_entry_id rest
       (dr_async_get_or_create devices config_entry_id [(DOMAIN c, cd_id device)]
          ''Tuya'' (cd_name device) (cd_product_name device @ '' (unsupported)''))"

definition register_known_devices :: "const \<Rightarrow> nat \<Rightarrow> nat \<Rightarrow> HomeAssistant \<Rightarrow> HomeAssistant" where
  "register_known_devices c entry manager hass =
     hass\<lparr>device_registry :=
            register_devices c (entry_id (config_entries hass entry))
              (map snd (device_map (managers hass manager))) (device_registry hass)\<rparr>"

text \<open>Lines 73 to 94: what follows once the manager is at hand.\<close>

definition setup_session :: "const \<Rightarrow> env \<Rightarrow> nat \<Rightarrow> nat \<Rightarrow> HomeAssistant \<Rightarrow> HomeAssistant \<times> (exn + bool)" where
  "setup_session c env entry manager =
     seq (\<lambda>h. report_version c env h manager) (\<lambda>_.
     seq (update_device_cache env manager) (\<lambda>_.
     seq (\<lambda>h. (register_known_devices c entry manager (cleanup_device_registry c h manager), Inr ())) (\<lambda>_.
     seq (external (ForwardEntrySetups entry (PLATFORMS c)) (forward_entry_setups_raises env)) (\<lambda>_.
     seq (refresh_mq env manager) (\<lambda>_ h.
     (h, Inr True))))))"

definition async_setup_entry :: "const \<Rightarrow> env \<Rightarrow> HomeAssistant \<Rightarrow> nat \<Rightarrow> HomeAssistant \<times> (exn + bool)" where
  "async_setup_entry c env hass entry =
     (let hass1 = hass\<lparr>hass_data := Some (case hass_data hass of None \<Rightarrow> [] | Some ns \<Rightarrow> ns)\<rparr>
      in if map_of (entry_data (config_entries hass1 entry)) (CONF_APP_TYPE c) \<noteq> None
         then (hass1, Inl (ConfigEntryAuthFailed ''Authentication failed. Please re-authenticate.''))
         else seq (session_manager c entry) (setup_session c env entry) hass1)"

subsection \<open>\<open>async_unload_entry\<close> and \<open>async_remove_entry\<close>\<close>

definition async_unload_entry :: "const \<Rightarrow> env \<Rightarrow> HomeAssistant \<Rightarrow> nat \<Rightarrow> HomeAssistant \<times> (exn + bool)" where
  "async_unload_entry c env hass entry =
     (let hass1 = record_call (LoggerDebug ''unload entry id = %s''
                                 [PStr (entry_id (config_entries hass entry))]) hass
      in (record_call (UnloadPlatforms entry (PLATFORMS c)) hass1, unload_platforms_result env))"

text \<open>
  Modelled from the spec: the vendor's \<open>remove_device_listener\<close> is outside the sources; it
  detaches the listener from the manager or raises.
\<close>

definition remove_device_listener ::
    "env \<Rightarrow> nat \<Rightarrow> DeviceListener \<Rightarrow> HomeAssistant \<Rightarrow> HomeAssistant \<times> (exn + unit)" where
  "remove_device_listener env manager listener hass =
     (let hass1 = record_call (RemoveDeviceListener manager (dl_ref listener)) hass
      in case remove_device_listener_raises env of
           Some x \<Rightarrow> (hass1, Inl x)
         | None \<Rightarrow>
             (hass1\<lparr>managers := (managers hass1)(manager := (managers hass1 manager)
                       \<lparr>device_listeners := filter (\<lambda>l. l \<noteq> dl_ref listener)
                                               (device_listeners (managers hass1 manager))\<rparr>)\<rparr>,
              Inr ()))"

text \<open>Lines 137 to 139: \<open>hass.data[DOMAIN].pop(entry.entry_id)\<close>, then the namespace itself.\<close>

definition pop_session :: "const \<Rightarrow> string \<Rightarrow> HomeAssistant \<Rightarrow> HomeAssistant \<times> (exn + unit)" where
  "pop_session c eid hass =
     (case hass_data hass of
        None \<Rightarrow> (hass, Inl (KeyError (DOMAIN c)))
      | Some ns \<Rightarrow>
          (case map_of ns eid of
             None \<Rightarrow> (hass, Inl (KeyError eid))
           | Some _ \<Rightarrow>
               (let ns' = AList.delete eid ns
                in (hass\<lparr>hass_data := (if ns' = [] then None else Some ns')\<rparr>, Inr ()))))"

definition async_remove_entry :: "const \<Rightarrow> env \<Rightarrow> HomeAssistant \<Rightarrow> nat \<Rightarrow> HomeAssistant \<times> (exn + unit)" where
  "async_remove_entry c env hass entry =
     (let eid = entry_id (config_entries hass entry);
          hass1 = record_call (LoggerDebug ''remove entry id = %s'' [PStr eid]) hass
      in case hass_data hass1 of
           None \<Rightarrow> (hass1, Inl (KeyError (DOMAIN c)))
         | Some ns \<Rightarrow>
             (case map_of ns eid of
                None \<Rightarrow> (hass1, Inl (KeyError eid))
              | Some tuya \<Rightarrow>
                  seq (\<lambda>h. if mq (managers h (tuya_manager tuya)) \<noteq> None
                           then external (MqStop (tuya_manager tuya)) (mq_stop_raises env) h
                           else (h, Inr ())) (\<lambda>_.
                  seq (remove_device_listener env (tuya_manager tuya) (tuya_listener tuya)) (\<lambda>_.
                  seq (external (Unload (tuya_manager tuya)) (unload_raises env)) (\<lambda>_.
                  pop_session c eid))) hass1))"

subsection \<open>\<open>DeviceListener\<close>\<close>

definition update_device ::
    "const \<Rightarrow> DeviceListener \<Rightarrow> CustomerDevice \<Rightarrow> HomeAssistant \<Rightarrow> HomeAssistant \<times> (exn + unit)" where
  "update_device c self device hass =
     (case getitem (device_map (managers hass (dl_manager self))) (cd_id device) of
        Inl x \<Rightarrow> (hass, Inl x)
      | Inr d \<Rightarrow>
          (record_call (DispatcherSend (TUYA_HA_SIGNAL_UPDATE_ENTITY c @ ''_'' @ cd_id device) None)
             (record_call (LoggerDebug ''Received update for device %s: %s''
                             [PStr (cd_id device), cd_status d]) hass),
           Inr ()))"

definition add_device :: "const \<Rightarrow> DeviceListener \<Rightarrow> CustomerDevice \<Rightarrow> HomeAssistant \<Rightarrow> HomeAssistant" where
  "add_device c self device hass =
     record_call (DispatcherSend (TUYA_DISCOVERY_NEW c) (Some [cd_id device]))
       (record_call (AddJobAsyncRemoveDevice (dl_ref self) (cd_id device)) hass)"

definition remove_device :: "DeviceListener \<Rightarrow> string \<Rightarrow> HomeAssistant \<Rightarrow> HomeAssistant" where
  "remove_device self device_id hass =
     record_call (AddJobAsyncRemoveDevice (dl_ref self) device_id) hass"

definition async_remove_device :: "const \<Rightarrow> DeviceListener \<Rightarrow> string \<Rightarrow> HomeAssistant \<Rightarrow> HomeAssistant" where
  "async_remove_device c self device_id hass =
     (let hass1 = record_call (LoggerDebug ''Remove device: %s'' [PStr device_id]) hass
      in case dr_async_get_device (device_registry hass1) [(DOMAIN c, device_id)] of
           None \<Rightarrow> hass1
         | Some device_entry \<Rightarrow>
             hass1\<lparr>device_registry := dr_async_remove_device (device_registry hass1) (de_id device_entry)\<rparr>)"

subsection \<open>\<open>TokenListener\<close>\<close>

text \<open>
  Modelled from the spec: the host's \<open>config_entries.async_update_entry\<close> is outside the
  sources; it writes the given data into the entry.
\<close>

definition async_update_entry :: "nat \<Rightarrow> (string \<times> pyval) list \<Rightarrow> HomeAssistant \<Rightarrow> HomeAssistant" where
  "async_update_entry entry new_data hass =
     (record_call (AsyncUpdateEntry entry new_data) hass)
       \<lparr>config_entries := (config_entries hass)(entry := (config_entries hass entry)\<lparr>entry_data := new_data\<rparr>)\<rparr>"

text \<open>\<open>{**self.entry.data, "token_info": token_info}\<close> keeps the keys in place and sets one.\<close>

definition update_token :: "TokenListener \<Rightarrow> pyval \<Rightarrow> HomeAssistant \<Rightarrow> HomeAssistant" where
  "update_token self token_info hass =
     (let new_data = AList.update ''token_info'' token_info
                       (entry_data (config_entries hass (tl_entry self)));
          hass1 = record_call (LoggerDebug ''update token info : %s'' [PDict new_data]) hass
      in async_update_entry (tl_entry self) new_data hass1)"

subsection \<open>Observations on a state\<close>

text \<open>\<open>hass.data.get(DOMAIN, {}).get(eid)\<close>: the session stored under an entry id.\<close>

definition stored_session :: "HomeAssistant \<Rightarrow> string \<Rightarrow> HomeAssistantTuyaData option" where
  "stored_session hass eid = (case hass_data hass of None \<Rightarrow> None | Some ns \<Rightarrow> map_of ns eid)"

text \<open>The device ids that the registry entries carry in identifiers of this domain.\<close>

definition domain_device_ids :: "const \<Rightarrow> DeviceEntry list \<Rightarrow> string set" where
  "domain_device_ids c devices =
     set (map snd (filter (\<lambda>item. fst item = DOMAIN c) (concat (map de_identifiers devices))))"

text \<open>An entry that \<open>cleanup_device_registry\<close> removes: one of its identifiers of this domain is no key of the device map.\<close>

definition stale :: "const \<Rightarrow> (string \<times> CustomerDevice) list \<Rightarrow> DeviceEntry \<Rightarrow> bool" where
  "stale c dm e = (\<exists>item \<in> set (de_identifiers e). fst item = DOMAIN c \<and> map_of dm (snd item) = None)"

text \<open>The calls that construct a session, and the calls of the steps that follow version reporting.\<close>

fun is_constructor :: "call \<Rightarrow> bool" where
  "is_constructor (ManagerInit _) = True"
| "is_constructor (AddDeviceListener _ _) = True"
| "is_constructor _ = False"

fun after_report :: "call \<Rightarrow> bool" where
  "after_report (UpdateDeviceCache _) = True"
| "after_report (ForwardEntrySetups _ _) = True"
| "after_report (RefreshMq _) = True"
| "after_report _ = False"

subsection \<open>Example states\<close>

definition example_const :: const where
  "example_const =
     \<lparr>CONF_APP_TYPE = ''tuya_app_type'', DOMAIN = ''tuya'', PLATFORMS = [''light'', ''switch''],
      TUYA_DISCOVERY_NEW = ''tuya_discovery_new'',
      TUYA_HA_SIGNAL_UPDATE_ENTITY = ''tuya_entry_update'',
      CONF_TERMINAL_ID = ''terminal_id'', CONF_TOKEN_INFO = ''token_info'',
      CONF_USER_CODE = ''user_code'', TUYA_CLIENT_ID = ''client'',
      CONF_ENDPOINT = ''endpoint'', HA_VERSION = ''2024.1.0''\<rparr>"

definition example_entry :: ConfigEntry where
  "example_entry =
     \<lparr>entry_id = ''e1'',
      entry_data = [(''user_code'', PStr ''u''), (''terminal_id'', PStr ''t''),
                    (''endpoint'', PStr ''https://x''), (''token_info'', PDict [(''t'', PInt 1)])]\<rparr>"

definition legacy_entry :: ConfigEntry where
  "legacy_entry =
     \<lparr>entry_id = ''e2'',
      entry_data = [(''tuya_app_type'', PStr ''smartlife''), (''user_code'', PStr ''u'')]\<rparr>"

definition example_devices :: "(string \<times> CustomerDevice) list" where
  "example_devices =
     [(''a'', \<lparr>cd_id = ''a'', cd_name = ''Lamp'', cd_product_name = ''L1'', cd_status = PNone\<rparr>),
      (''b'', \<lparr>cd_id = ''b'', cd_name = ''Plug'', cd_product_name = ''P1'', cd_status = PNone\<rparr>)]"

definition example_manager :: Manager where
  "example_manager =
     \<lparr>client_id = ''client'', user_code = PStr ''u'', terminal_id = PStr ''t'',
      end_point = PStr ''https://x'', token_response = PNone,
      token_listener = \<lparr>tl_ref = 0, tl_entry = 0\<rparr>,
      device_map = [(''a'', \<lparr>cd_id = ''a'', cd_name = ''Lamp'', cd_product_name = ''L1'', cd_status = PNone\<rparr>)],
      mq = Some (), device_listeners = [2]\<rparr>"

definition example_registry :: "DeviceEntry list" where
  "example_registry =
     [\<lparr>de_id = 1, de_config_entries = [''e1''], de_identifiers = [(''tuya'', ''a'')],
       de_manufacturer = Some ''Tuya'', de_name = Some ''Lamp'', de_model = Some ''L1''\<rparr>,
      \<lparr>de_id = 2, de_config_entries = [''e1''], de_identifiers = [(''tuya'', ''c'')],
       de_manufacturer = Some ''Tuya'', de_name = Some ''Fan'', de_model = Some ''F1''\<rparr>]"

definition example_hass :: HomeAssistant where
  "example_hass =
     \<lparr>hass_data = None, managers = (\<lambda>_. example_manager),
      config_entries = (\<lambda>_. example_entry)(1 := legacy_entry), next_ref = 0,
      device_registry = example_registry, calls = []\<rparr>"

definition active_hass :: HomeAssistant where
  "active_hass =
     example_hass\<lparr>hass_data := Some [(''e1'', \<lparr>tuya_manager = 1,
                                              tuya_listener = \<lparr>dl_ref = 2, dl_manager = 1\<rparr>\<rparr>)],
                  next_ref := 3\<rparr>"

definition example_env :: env where
  "example_env =
     \<lparr>async_get_integration =
        Inr \<lparr>mf_version = Some ''1.0.0'',
             mf_requirements = Some [''tuya-device-sharing-sdk==0.1.9'']\<rparr>,
      report_version_raises = None,
      update_device_cache_result = Inr example_devices,
      forward_entry_setups_raises = None,
      refresh_mq_raises = None,
      unload_platforms_result = Inr True,
      mq_stop_raises = None,
      remove_device_listener_raises = None,
      unload_raises = None\<rparr>"


section \<open>Properties\<close>

subsection \<open>Sequencing and the steps of \<open>async_setup_entry\<close>\<close>

lemma seq_keeps:
  assumes "\<And>h. F (fst (m h)) = F h" and "\<And>a h. F (fst (f a h)) = F h"
  shows "F (fst (seq m f h)) = F h"
proof (cases "m h")
  case (Pair h1 r)
  then have "F h1 = F h"
    using assms(1) [of h] by simp
  then show ?thesis
    using assms(2) by (cases r) (simp_all add: seq_def Pair)
qed

lemma report_version_keeps:
  "hass_data (fst (report_version c env h manager)) = hass_data h"
  "next_ref (fst (report_version c env h manager)) = next_ref h"
  "config_entries (fst (report_version c env h manager)) = config_entries h"
  "managers (fst (report_version c env h manager)) = managers h"
  "device_registry (fst (report_version c env h manager)) = device_registry h"
  "filter is_constructor (calls (fst (report_version c env h manager))) = filter is_constructor (calls h)"
  "filter after_report (calls (fst (report_version c env h manager))) = filter after_report (calls h)"
  by (simp_all add: report_version_def external_def record_call_def Let_def
        split: sum.splits option.splits)

lemma update_device_cache_keeps:
  "hass_data (fst (update_device_cache env manager h)) = hass_data h"
  "next_ref (fst (update_device_cache env manager h)) = next_ref h"
  "config_entries (fst (update_device_cache env manager h)) = config_entries h"
  "m \<noteq> manager \<Longrightarrow> managers (fst (update_device_cache env manager h)) m = managers h m"
  "filter is_constructor (calls (fst (update_device_cache env manager h))) = filter is_constructor (calls h)"
  by (simp_all add: update_device_cache_def record_call_def Let_def split: sum.splits)

lemma registry_steps_keep:
  "hass_data (register_known_devices c entry manager (cleanup_device_registry c h manager)) = hass_data h"
  "next_ref (register_known_devices c entry manager (cleanup_device_registry c h manager)) = next_ref h"
  "config_entries (register_known_devices c entry manager (cleanup_device_registry c h manager)) = config_entries h"
  "managers (register_known_devices c entry manager (cleanup_device_registry c h manager)) = managers h"
  "calls (register_known_devices c entry manager (cleanup_device_registry c h manager)) = calls h"
  by (simp_all add: register_known_devices_def cleanup_device_registry_def)

lemma external_keeps:
  "hass_data (fst (external cl outcome h)) = hass_data h"
  "next_ref (fst (external cl outcome h)) = next_ref h"
  "config_entries (fst (external cl outcome h)) = config_entries h"
  "managers (fst (external cl outcome h)) = managers h"
  "device_registry (fst (external cl outcome h)) = device_registry h"
  "calls (fst (external cl outcome h)) = calls h @ [cl]"
  by (simp_all add: external_def record_call_def)

lemma refresh_mq_keeps:
  "hass_data (fst (refresh_mq env manager h)) = hass_data h"
  "next_ref (fst (refresh_mq env manager h)) = next_ref h"
  "config_entries (fst (refresh_mq env manager h)) = config_entries h"
  "m \<noteq> manager \<Longrightarrow> managers (fst (refresh_mq env manager h)) m = managers h m"
  "device_registry (fst (refresh_mq env manager h)) = device_registry h"
  "filter is_constructor (calls (fst (refresh_mq env manager h))) = filter is_constructor (calls h)"
  by (simp_all add: refresh_mq_def record_call_def Let_def split: option.splits)

lemmas step_keeps = report_version_keeps update_device_cache_keeps registry_steps_keep
  external_keeps refresh_mq_keeps

lemma setup_session_hass_data:
  "hass_data (fst (setup_session c env entry manager h)) = hass_data h"
  unfolding setup_session_def
  by (intro seq_keeps [where F = hass_data]) (simp_all add: step_keeps)

lemma setup_session_next_ref:
  "next_ref (fst (setup_session c env entry manager h)) = next_ref h"
  unfolding setup_session_def
  by (intro seq_keeps [where F = next_ref]) (simp_all add: step_keeps)

lemma setup_session_config_entries:
  "config_entries (fst (setup_session c env entry manager h)) = config_entries h"
  unfolding setup_session_def
  by (intro seq_keeps [where F = config_entries]) (simp_all add: step_keeps)

lemma setup_session_constructors:
  "filter is_constructor (calls (fst (setup_session c env entry manager h)))
     = filter is_constructor (calls h)"
  unfolding setup_session_def
  by (intro seq_keeps [where F = "\<lambda>h. filter is_constructor (calls h)"]) (simp_all add: step_keeps)

lemma setup_session_other_managers:
  assumes "m \<noteq> manager"
  shows "managers (fst (setup_session c env entry manager h)) m = managers h m"
  unfolding setup_session_def
  by (intro seq_keeps [where F = "\<lambda>h. managers h m"]) (simp_all add: step_keeps assms)

lemma seq_Inr:
  assumes "snd (seq m f h) = Inr b"
  obtains h1 a where "m h = (h1, Inr a)" and "seq m f h = f a h1"
proof (cases "m h")
  case (Pair h1 r)
  with assms show ?thesis
    by (cases r) (auto simp add: seq_def intro: that)
qed

lemma session_manager_result:
  assumes "session_manager c entry h = (h2, Inr manager)"
  shows "\<exists>tuya. stored_session h2 (entry_id (config_entries h entry)) = Some tuya
                 \<and> tuya_manager tuya = manager"
    and "device_registry h2 = device_registry h"
    and "config_entries h2 = config_entries h"
  using assms
  by (auto simp add: session_manager_def create_session_def getitem_def stored_session_def
        Let_def update_conv' split: option.splits)

lemma setup_session_success:
  assumes "snd (setup_session c env entry manager h) = Inr b"
      and "update_device_cache_result env = Inr dm"
  shows "device_registry (fst (setup_session c env entry manager h))
           = register_devices c (entry_id (config_entries h entry)) (map snd dm)
               (cleanup_devices c dm (map (\<lambda>e. (de_id e, e)) (device_registry h)) (device_registry h))"
    and "device_map (managers (fst (setup_session c env entry manager h)) manager) = dm"
  using assms report_version_keeps [of c env h manager]
  by (auto simp add: setup_session_def seq_def update_device_cache_def refresh_mq_def
        external_def record_call_def register_known_devices_def cleanup_device_registry_def Let_def
        split: prod.splits sum.splits option.splits)

subsection \<open>The registry after pruning and registration\<close>

lemma domain_device_ids_iff:
  "i \<in> domain_device_ids c devices \<longleftrightarrow> (\<exists>e \<in> set devices. (DOMAIN c, i) \<in> set (de_identifiers e))"
  by (force simp add: domain_device_ids_def)

lemma cleanup_identifiers_eq:
  "cleanup_identifiers c dm dev_id ids devices =
     (if \<exists>item \<in> set ids. fst item = DOMAIN c \<and> map_of dm (snd item) = None
      then dr_async_remove_device devices dev_id else devices)"
  by (induction ids) auto

lemma cleanup_identifiers_stale:
  "cleanup_identifiers c dm dev_id (de_identifiers e) devices =
     (if stale c dm e then dr_async_remove_device devices dev_id else devices)"
  unfolding stale_def by (rule cleanup_identifiers_eq)

lemma cleanup_devices_eq:
  "cleanup_devices c dm snap devices =
     filter (\<lambda>e. \<not> (\<exists>e'. (de_id e, e') \<in> set snap \<and> stale c dm e')) devices"
proof (induction snap arbitrary: devices)
  case Nil
  then show ?case by simp
next
  case (Cons p snap)
  obtain dev_id device_entry where p: "p = (dev_id, device_entry)" by (cases p)
  have step: "cleanup_identifiers c dm dev_id (de_identifiers device_entry) devices
                = filter (\<lambda>e. \<not> (de_id e = dev_id \<and> stale c dm device_entry)) devices"
    by (simp add: cleanup_identifiers_stale dr_async_remove_device_def)
  have "cleanup_devices c dm (p # snap) devices
          = filter (\<lambda>e. \<not> (\<exists>e'. (de_id e, e') \<in> set snap \<and> stale c dm e'))
              (filter (\<lambda>e. \<not> (de_id e = dev_id \<and> stale c dm device_entry)) devices)"
    by (simp add: p Cons.IH step)
  also have "\<dots> = filter (\<lambda>e. \<not> (\<exists>e'. (de_id e, e') \<in> set (p # snap) \<and> stale c dm e')) devices"
    unfolding filter_filter p by (rule filter_cong) auto
  finally show ?case .
qed

lemma cleanup_devices_snapshot:
  "cleanup_devices c dm (map (\<lambda>e. (de_id e, e)) devices) devices =
     filter (\<lambda>e. \<not> (\<exists>e' \<in> set devices. de_id e' = de_id e \<and> stale c dm e')) devices"
  unfolding cleanup_devices_eq by (rule filter_cong) (auto simp add: image_iff)

lemma set_merge_list: "set (merge_list old new) = set old \<union> set new"
  by (auto simp add: merge_list_def)

lemma get_or_create_domain_ids:
  "domain_device_ids c (dr_async_get_or_create devices eid [(DOMAIN c, x)] mf n md)
     = insert x (domain_device_ids c devices)"
proof (cases "dr_async_get_device devices [(DOMAIN c, x)]")
  case None
  then show ?thesis
    by (auto simp add: dr_async_get_or_create_def domain_device_ids_iff)
next
  case (Some found)
  then have f: "found \<in> set devices" "(DOMAIN c, x) \<in> set (de_identifiers found)"
    by (auto simp add: dr_async_get_device_def find_Some_iff in_set_conv_nth)
  define g :: "DeviceEntry \<Rightarrow> DeviceEntry" where "g = (\<lambda>e. if de_id e = de_id found
      then e\<lparr>de_config_entries := merge_list (de_config_entries e) [eid],
             de_identifiers := merge_list (de_identifiers e) [(DOMAIN c, x)],
             de_manufacturer := Some mf, de_name := Some n, de_model := Some md\<rparr>
      else e)"
  have res: "dr_async_get_or_create devices eid [(DOMAIN c, x)] mf n md = map g devices"
    by (simp add: Some dr_async_get_or_create_def g_def)
  have ids: "set (de_identifiers (g e)) =
               (if de_id e = de_id found then insert (DOMAIN c, x) (set (de_identifiers e))
                else set (de_identifiers e))" for e
    by (simp add: g_def set_merge_list)
  show ?thesis
  proof (rule set_eqI)
    fix i
    have "i \<in> domain_device_ids c (map g devices)
            \<longleftrightarrow> (\<exists>e \<in> set devices. (DOMAIN c, i) \<in> set (de_identifiers (g e)))"
      by (simp add: domain_device_ids_iff)
    also have "\<dots> \<longleftrightarrow> i \<in> insert x (domain_device_ids c devices)"
      using f by (auto simp add: ids domain_device_ids_iff split: if_splits)
    finally show "i \<in> domain_device_ids c (dr_async_get_or_create devices eid [(DOMAIN c, x)] mf n md)
            \<longleftrightarrow> i \<in> insert x (domain_device_ids c devices)"
      unfolding res .
  qed
qed

lemma register_devices_domain_ids:
  "domain_device_ids c (register_devices c eid ds devices)
     = domain_device_ids c devices \<union> cd_id ` set ds"
  by (induction ds arbitrary: devices) (auto simp add: get_or_create_domain_ids)

lemma pruned_domain_ids:
  "domain_device_ids c (filter (\<lambda>e. \<not> (\<exists>e' \<in> set devices. de_id e' = de_id e \<and> stale c dm e')) devices)
     \<subseteq> fst ` set dm"
proof
  fix i
  assume "i \<in> domain_device_ids c (filter (\<lambda>e. \<not> (\<exists>e' \<in> set devices. de_id e' = de_id e \<and> stale c dm e')) devices)"
  then obtain e where e: "e \<in> set devices" "\<not> stale c dm e" "(DOMAIN c, i) \<in> set (de_identifiers e)"
    by (auto simp add: domain_device_ids_iff)
  then have "map_of dm i \<noteq> None"
    by (force simp add: stale_def)
  then show "i \<in> fst ` set dm"
    by (simp add: map_of_eq_None_iff)
qed

text \<open>
  C1. After \<open>async_setup_entry\<close> has returned \<open>True\<close>, the device ids that the registry
  entries carry in identifiers of this domain are exactly the keys of the refreshed device
  map, whatever the registry held before: entries with an identifier of this domain outside
  the map are gone, and every device of the map has its entry. The refreshed map is the one
  the stored session's manager holds, and it stores each device under the device's own id.
\<close>

theorem async_setup_entry_registry_matches_device_map:
  assumes "snd (async_setup_entry c env hass entry) = Inr True"
      and "update_device_cache_result env = Inr dm"
      and "\<forall>(k, d) \<in> set dm. cd_id d = k"
  shows "domain_device_ids c (device_registry (fst (async_setup_entry c env hass entry))) = fst ` set dm
       \<and> (\<exists>tuya. stored_session (fst (async_setup_entry c env hass entry))
                    (entry_id (config_entries hass entry)) = Some tuya
                 \<and> device_map (managers (fst (async_setup_entry c env hass entry)) (tuya_manager tuya)) = dm)"
proof -
  define hass1 where "hass1 = hass\<lparr>hass_data := Some (case hass_data hass of None \<Rightarrow> [] | Some ns \<Rightarrow> ns)\<rparr>"
  have h1: "device_registry hass1 = device_registry hass" "config_entries hass1 = config_entries hass"
    by (simp_all add: hass1_def)
  have run: "async_setup_entry c env hass entry
               = seq (session_manager c entry) (setup_session c env entry) hass1"
    using assms(1)
    by (auto simp add: async_setup_entry_def Let_def hass1_def split: if_splits)
  from assms(1) obtain h2 manager where sm: "session_manager c entry hass1 = (h2, Inr manager)"
      and tail: "async_setup_entry c env hass entry = setup_session c env entry manager h2"
    unfolding run by (rule seq_Inr)
  have ok: "snd (setup_session c env entry manager h2) = Inr True"
    using assms(1) by (simp add: tail)
  note s2 = session_manager_result [OF sm]
  have keys: "cd_id ` set (map snd dm) = fst ` set dm"
    using assms(3) by (force simp add: image_iff)
  have ids: "domain_device_ids c (device_registry (fst (async_setup_entry c env hass entry))) = fst ` set dm"
    using pruned_domain_ids [of c "device_registry hass" dm]
    unfolding tail setup_session_success(1) [OF ok assms(2)] s2(2) h1
      register_devices_domain_ids cleanup_devices_snapshot keys
    by auto
  from s2(1) obtain tuya where t: "stored_session h2 (entry_id (config_entries hass entry)) = Some tuya"
      "tuya_manager tuya = manager"
    by (auto simp add: h1)
  have "stored_session (fst (async_setup_entry c env hass entry)) (entry_id (config_entries hass entry))
          = Some tuya"
    using t(1) by (simp add: tail stored_session_def setup_session_hass_data)
  moreover have "device_map (managers (fst (async_setup_entry c env hass entry)) (tuya_manager tuya)) = dm"
    by (simp add: tail t(2) setup_session_success(2) [OF ok assms(2)])
  ultimately show ?thesis
    using ids by blast
qed

theorem async_setup_entry_registry_witness:
  "snd (async_setup_entry example_const example_env example_hass 0) = Inr True
   \<and> update_device_cache_result example_env = Inr example_devices
   \<and> domain_device_ids example_const (device_registry example_hass) = {''a'', ''c''}
   \<and> domain_device_ids example_const
        (device_registry (fst (async_setup_entry example_const example_env example_hass 0)))
       = {''a'', ''b''}"
proof -
  have ok: "snd (async_setup_entry example_const example_env example_hass 0) = Inr True"
    by (simp add: async_setup_entry_def session_manager_def create_session_def setup_session_def
          seq_def getitem_def report_version_def update_device_cache_def refresh_mq_def
          external_def record_call_def register_known_devices_def cleanup_device_registry_def
          Let_def example_const_def example_env_def example_hass_def example_entry_def)
  have dm: "update_device_cache_result example_env = Inr example_devices"
    by (simp add: example_env_def)
  have keyed: "\<forall>(k, d) \<in> set example_devices. cd_id d = k"
    by (simp add: example_devices_def)
  have before: "domain_device_ids example_const (device_registry example_hass) = {''a'', ''c''}"
    by (simp add: domain_device_ids_def example_hass_def example_registry_def example_const_def)
  show ?thesis
    using async_setup_entry_registry_matches_device_map [OF ok dm keyed] ok dm before
    by (auto simp add: example_devices_def)
qed

subsection \<open>Sessions across \<open>async_setup_entry\<close>\<close>



lemma setup_runs_on_stored_manager:
  assumes "stored_session hass (entry_id (config_entries hass entry)) = Some tuya"
  shows "async_setup_entry c env hass entry
           = (if map_of (entry_data (config_entries hass entry)) (CONF_APP_TYPE c) \<noteq> None
              then (hass, Inl (ConfigEntryAuthFailed ''Authentication failed. Please re-authenticate.''))
              else setup_session c env entry (tuya_manager tuya) hass)"
proof -
  from assms obtain ns where ns: "hass_data hass = Some ns"
      "map_of ns (entry_id (config_entries hass entry)) = Some tuya"
    by (auto simp add: stored_session_def split: option.splits)
  have same: "hass\<lparr>hass_data := Some (case hass_data hass of None \<Rightarrow> [] | Some ns \<Rightarrow> ns)\<rparr> = hass"
  proof -
    have "hass\<lparr>hass_data := hass_data hass\<rparr> = hass"
      by simp
    then show ?thesis
      by (simp add: ns(1))
  qed
  have sm: "session_manager c entry hass = (hass, Inr (tuya_manager tuya))"
    by (simp add: session_manager_def ns)
  show ?thesis
    unfolding async_setup_entry_def Let_def same by (simp add: seq_def sm)
qed

lemma setup_with_stored_session:
  assumes "stored_session hass (entry_id (config_entries hass entry)) = Some tuya"
  shows "hass_data (fst (async_setup_entry c env hass entry)) = hass_data hass"
    and "next_ref (fst (async_setup_entry c env hass entry)) = next_ref hass"
    and "filter is_constructor (calls (fst (async_setup_entry c env hass entry)))
           = filter is_constructor (calls hass)"
    and "config_entries (fst (async_setup_entry c env hass entry)) = config_entries hass"
    and "m \<noteq> tuya_manager tuya \<Longrightarrow> managers (fst (async_setup_entry c env hass entry)) m = managers hass m"
proof -
  note run = setup_runs_on_stored_manager [OF assms, of c env]
  show "hass_data (fst (async_setup_entry c env hass entry)) = hass_data hass"
    by (simp add: run setup_session_hass_data)
  show "next_ref (fst (async_setup_entry c env hass entry)) = next_ref hass"
    by (simp add: run setup_session_next_ref)
  show "filter is_constructor (calls (fst (async_setup_entry c env hass entry)))
          = filter is_constructor (calls hass)"
    by (simp add: run setup_session_constructors)
  show "config_entries (fst (async_setup_entry c env hass entry)) = config_entries hass"
    by (simp add: run setup_session_config_entries)
  show "managers (fst (async_setup_entry c env hass entry)) m = managers hass m"
    if "m \<noteq> tuya_manager tuya"
    using that by (simp add: run setup_session_other_managers)
qed

text \<open>
  C3. When a session is stored under the entry's id, as it is after an earlier
  \<open>async_setup_entry\<close> that got as far as the session and no \<open>async_remove_entry\<close> since,
  \<open>async_setup_entry\<close> runs on the manager of that session: past the legacy check it is
  the steps from version reporting on, carried out with the stored manager, in the state
  it was called in. Whatever its outcome, that very session stays stored under the id, the
  namespace is unchanged, no object reference is handed out, no constructor call is made
  and no other manager is touched, so there is no second manager or listener.
\<close>

theorem async_setup_entry_reuses_session:
  assumes "stored_session hass (entry_id (config_entries hass entry)) = Some tuya"
  shows "async_setup_entry c env hass entry
           = (if map_of (entry_data (config_entries hass entry)) (CONF_APP_TYPE c) \<noteq> None
              then (hass, Inl (ConfigEntryAuthFailed ''Authentication failed. Please re-authenticate.''))
              else setup_session c env entry (tuya_manager tuya) hass)
       \<and> stored_session (fst (async_setup_entry c env hass entry)) (entry_id (config_entries hass entry))
           = Some tuya
       \<and> hass_data (fst (async_setup_entry c env hass entry)) = hass_data hass
       \<and> next_ref (fst (async_setup_entry c env hass entry)) = next_ref hass
       \<and> filter is_constructor (calls (fst (async_setup_entry c env hass entry)))
           = filter is_constructor (calls hass)
       \<and> (\<forall>m. m \<noteq> tuya_manager tuya \<longrightarrow>
             managers (fst (async_setup_entry c env hass entry)) m = managers hass m)"
proof -
  note keep = setup_with_stored_session [OF assms, where c = c and env = env]
  have "stored_session (fst (async_setup_entry c env hass entry)) (entry_id (config_entries hass entry))
          = Some tuya"
    using assms by (simp add: stored_session_def keep(1))
  then show ?thesis
    using setup_runs_on_stored_manager [OF assms, of c env] keep by blast
qed

theorem async_setup_entry_reuses_session_witness:
  "stored_session (fst (async_setup_entry example_const example_env example_hass 0)) ''e1''
     = Some \<lparr>tuya_manager = 1, tuya_listener = \<lparr>dl_ref = 2, dl_manager = 1\<rparr>\<rparr>
   \<and> async_setup_entry example_const example_env
        (fst (async_setup_entry example_const example_env example_hass 0)) 0
       = setup_session example_const example_env 0 1
           (fst (async_setup_entry example_const example_env example_hass 0))
   \<and> stored_session
        (fst (async_setup_entry example_const example_env
               (fst (async_setup_entry example_const example_env example_hass 0)) 0)) ''e1''
       = Some \<lparr>tuya_manager = 1, tuya_listener = \<lparr>dl_ref = 2, dl_manager = 1\<rparr>\<rparr>
   \<and> snd (async_setup_entry example_const example_env
                 (fst (async_setup_entry example_const example_env example_hass 0)) 0) = Inr True
   \<and> next_ref (fst (async_setup_entry example_const example_env
                      (fst (async_setup_entry example_const example_env example_hass 0)) 0)) = 3
   \<and> filter is_constructor
        (calls (fst (async_setup_entry example_const example_env
                      (fst (async_setup_entry example_const example_env example_hass 0)) 0)))
       = [ManagerInit 1, AddDeviceListener 1 2]"
proof -
  define h1 where "h1 = fst (async_setup_entry example_const example_env example_hass 0)"
  have first: "stored_session h1 ''e1'' = Some \<lparr>tuya_manager = 1, tuya_listener = \<lparr>dl_ref = 2, dl_manager = 1\<rparr>\<rparr>"
      "next_ref h1 = 3" "entry_id (config_entries h1 0) = ''e1''"
      "map_of (entry_data (config_entries h1 0)) (CONF_APP_TYPE example_const) = None"
      "filter is_constructor (calls h1) = [ManagerInit 1, AddDeviceListener 1 2]"
    unfolding h1_def
    by (simp_all add: async_setup_entry_def session_manager_def create_session_def setup_session_def
          seq_def getitem_def report_version_def update_device_cache_def refresh_mq_def
          external_def record_call_def register_known_devices_def cleanup_device_registry_def
          Let_def stored_session_def
          example_const_def example_env_def example_hass_def example_entry_def)
  have "stored_session h1 (entry_id (config_entries h1 0))
          = Some \<lparr>tuya_manager = 1, tuya_listener = \<lparr>dl_ref = 2, dl_manager = 1\<rparr>\<rparr>"
    by (simp add: first)
  note reuse = async_setup_entry_reuses_session [OF this, of example_const example_env]
  have run: "async_setup_entry example_const example_env h1 0
               = setup_session example_const example_env 0 1 h1"
    using conjunct1 [OF reuse] by (simp add: first)
  have kept: "stored_session (fst (async_setup_entry example_const example_env h1 0)) ''e1''
                = Some \<lparr>tuya_manager = 1, tuya_listener = \<lparr>dl_ref = 2, dl_manager = 1\<rparr>\<rparr>"
      "next_ref (fst (async_setup_entry example_const example_env h1 0)) = 3"
      "filter is_constructor (calls (fst (async_setup_entry example_const example_env h1 0)))
         = [ManagerInit 1, AddDeviceListener 1 2]"
    using conjunct2 [OF reuse] by (simp_all add: first)
  have ok: "snd (setup_session example_const example_env 0 1 h1) = Inr True"
    by (simp add: setup_session_def seq_def report_version_def update_device_cache_def
          refresh_mq_def external_def record_call_def Let_def example_env_def)
  show ?thesis
    unfolding h1_def [symmetric] using first(1) run kept ok by simp
qed

subsection \<open>The legacy marker\<close>

text \<open>
  C2. When the entry's data has the legacy app-type key, \<open>async_setup_entry\<close> raises
  \<open>ConfigEntryAuthFailed\<close> right after \<open>hass.data.setdefault(DOMAIN, {})\<close>: no object is
  constructed, no call leaves the module, and what is stored under any entry id is what was
  stored before.
\<close>

theorem async_setup_entry_legacy_auth:
  assumes "map_of (entry_data (config_entries hass entry)) (CONF_APP_TYPE c) \<noteq> None"
  shows "async_setup_entry c env hass entry
           = (hass\<lparr>hass_data := Some (case hass_data hass of None \<Rightarrow> [] | Some ns \<Rightarrow> ns)\<rparr>,
              Inl (ConfigEntryAuthFailed ''Authentication failed. Please re-authenticate.''))
         \<and> managers (fst (async_setup_entry c env hass entry)) = managers hass
         \<and> next_ref (fst (async_setup_entry c env hass entry)) = next_ref hass
         \<and> calls (fst (async_setup_entry c env hass entry)) = calls hass
         \<and> (\<forall>eid. stored_session (fst (async_setup_entry c env hass entry)) eid = stored_session hass eid)"
  using assms by (auto simp add: async_setup_entry_def Let_def stored_session_def split: option.splits)

theorem async_setup_entry_legacy_auth_witness:
  "map_of (entry_data (config_entries example_hass 1)) (CONF_APP_TYPE example_const) \<noteq> None
   \<and> snd (async_setup_entry example_const example_env example_hass 1)
       = Inl (ConfigEntryAuthFailed ''Authentication failed. Please re-authenticate.'')
   \<and> next_ref (fst (async_setup_entry example_const example_env example_hass 1)) = 0
   \<and> stored_session (fst (async_setup_entry example_const example_env example_hass 1)) ''e2'' = None"
proof -
  have legacy: "map_of (entry_data (config_entries example_hass 1)) (CONF_APP_TYPE example_const) \<noteq> None"
    by (simp add: example_hass_def legacy_entry_def example_const_def)
  from async_setup_entry_legacy_auth [OF legacy, of example_env] legacy
  show ?thesis
    by (simp add: stored_session_def example_hass_def)
qed

subsection \<open>Version reporting\<close>







subsection \<open>\<open>TokenListener.update_token\<close>\<close>

text \<open>
  C5. \<open>update_token\<close> hands to the host's \<open>async_update_entry\<close> the entry's data with the
  key \<open>token_info\<close> set to the blob it was given, as it is, and nothing else changed:
  every other key reads as before, the entry keeps its id and no other entry is written.
\<close>

theorem update_token_replaces_only_token_info:
  "entry_data (config_entries (update_token self T hass) (tl_entry self))
     = AList.update ''token_info'' T (entry_data (config_entries hass (tl_entry self)))
   \<and> map_of (entry_data (config_entries (update_token self T hass) (tl_entry self))) ''token_info'' = Some T
   \<and> (\<forall>k. k \<noteq> ''token_info'' \<longrightarrow>
          map_of (entry_data (config_entries (update_token self T hass) (tl_entry self))) k
            = map_of (entry_data (config_entries hass (tl_entry self))) k)
   \<and> entry_id (config_entries (update_token self T hass) (tl_entry self))
       = entry_id (config_entries hass (tl_entry self))
   \<and> (\<forall>e. e \<noteq> tl_entry self \<longrightarrow> config_entries (update_token self T hass) e = config_entries hass e)
   \<and> last (calls (update_token self T hass))
       = AsyncUpdateEntry (tl_entry self)
           (AList.update ''token_info'' T (entry_data (config_entries hass (tl_entry self))))"
  by (simp add: update_token_def async_update_entry_def record_call_def Let_def update_conv')

theorem update_token_replaces_only_token_info_witness:
  "''user_code'' \<noteq> ''token_info''
   \<and> map_of (entry_data (config_entries
        (update_token \<lparr>tl_ref = 0, tl_entry = 0\<rparr> (PStr ''fresh'') example_hass) 0)) ''user_code''
       = Some (PStr ''u'')
   \<and> map_of (entry_data (config_entries
        (update_token \<lparr>tl_ref = 0, tl_entry = 0\<rparr> (PStr ''fresh'') example_hass) 0)) ''token_info''
       = Some (PStr ''fresh'')
   \<and> (1::nat) \<noteq> 0
   \<and> config_entries (update_token \<lparr>tl_ref = 0, tl_entry = 0\<rparr> (PStr ''fresh'') example_hass) 1
       = legacy_entry"
  using update_token_replaces_only_token_info
          [of "\<lparr>tl_ref = 0, tl_entry = 0\<rparr>" "PStr ''fresh''" example_hass]
  by (simp add: example_hass_def example_entry_def)

subsection \<open>\<open>async_remove_entry\<close> and \<open>async_unload_entry\<close>\<close>

text \<open>
  C6. With a session stored under the entry's id and no vendor call raising,
  \<open>async_remove_entry\<close> calls, in this order, \<open>mq.stop\<close> (only when the manager has a push
  channel), \<open>remove_device_listener\<close> and \<open>unload\<close>; afterwards nothing is stored under the
  entry's id, and the namespace is gone from \<open>hass.data\<close> when no session is left in it.
\<close>

theorem async_remove_entry_teardown_order:
  assumes "hass_data hass = Some ns"
      and "map_of ns (entry_id (config_entries hass entry)) = Some tuya"
      and "mq_stop_raises env = None"
      and "remove_device_listener_raises env = None"
      and "unload_raises env = None"
  shows "snd (async_remove_entry c env hass entry) = Inr ()
       \<and> calls (fst (async_remove_entry c env hass entry))
           = calls hass
             @ [LoggerDebug ''remove entry id = %s'' [PStr (entry_id (config_entries hass entry))]]
             @ (if mq (managers hass (tuya_manager tuya)) \<noteq> None then [MqStop (tuya_manager tuya)] else [])
             @ [RemoveDeviceListener (tuya_manager tuya) (dl_ref (tuya_listener tuya)),
                Unload (tuya_manager tuya)]
       \<and> stored_session (fst (async_remove_entry c env hass entry)) (entry_id (config_entries hass entry)) = None
       \<and> hass_data (fst (async_remove_entry c env hass entry))
           = (if AList.delete (entry_id (config_entries hass entry)) ns = [] then None
              else Some (AList.delete (entry_id (config_entries hass entry)) ns))"
  using assms
  by (simp add: async_remove_entry_def record_call_def Let_def seq_def external_def
        remove_device_listener_def pop_session_def stored_session_def delete_conv')

theorem async_remove_entry_teardown_order_witness:
  "hass_data active_hass
     = Some [(''e1'', \<lparr>tuya_manager = 1, tuya_listener = \<lparr>dl_ref = 2, dl_manager = 1\<rparr>\<rparr>)]
   \<and> mq (managers active_hass 1) = Some ()
   \<and> snd (async_remove_entry example_const example_env active_hass 0) = Inr ()
   \<and> calls (fst (async_remove_entry example_const example_env active_hass 0))
       = [LoggerDebug ''remove entry id = %s'' [PStr ''e1''], MqStop 1,
          RemoveDeviceListener 1 2, Unload 1]
   \<and> hass_data (fst (async_remove_entry example_const example_env active_hass 0)) = None"
proof -
  have stored: "hass_data active_hass
      = Some [(''e1'', \<lparr>tuya_manager = 1, tuya_listener = \<lparr>dl_ref = 2, dl_manager = 1\<rparr>\<rparr>)]"
    by (simp add: active_hass_def)
  have found: "map_of [(''e1'', \<lparr>tuya_manager = 1, tuya_listener = \<lparr>dl_ref = 2, dl_manager = 1\<rparr>\<rparr>)]
                 (entry_id (config_entries active_hass 0))
      = Some \<lparr>tuya_manager = 1, tuya_listener = \<lparr>dl_ref = 2, dl_manager = 1\<rparr>\<rparr>"
    by (simp add: active_hass_def example_hass_def example_entry_def)
  have quiet: "mq_stop_raises example_env = None" "remove_device_listener_raises example_env = None"
      "unload_raises example_env = None"
    by (simp_all add: example_env_def)
  from async_remove_entry_teardown_order [OF stored found quiet, of example_const] stored
  show ?thesis
    by (simp add: active_hass_def example_hass_def example_entry_def example_manager_def)
qed

text \<open>
  C10. \<open>async_remove_entry\<close> reads \<open>hass.data[DOMAIN][entry.entry_id]\<close> first: without the
  namespace, or without a session under the entry's id, it raises \<open>KeyError\<close> having done
  nothing but write its debug line, so no part of the teardown has run.
\<close>

theorem async_remove_entry_requires_session:
  "(hass_data hass = None \<longrightarrow>
      async_remove_entry c env hass entry
        = (record_call (LoggerDebug ''remove entry id = %s'' [PStr (entry_id (config_entries hass entry))]) hass,
           Inl (KeyError (DOMAIN c))))
   \<and> (\<forall>ns. hass_data hass = Some ns \<and> map_of ns (entry_id (config_entries hass entry)) = None \<longrightarrow>
        async_remove_entry c env hass entry
          = (record_call (LoggerDebug ''remove entry id = %s'' [PStr (entry_id (config_entries hass entry))]) hass,
             Inl (KeyError (entry_id (config_entries hass entry)))))"
  by (simp add: async_remove_entry_def record_call_def Let_def)

theorem async_remove_entry_requires_session_witness:
  "hass_data example_hass = None
   \<and> snd (async_remove_entry example_const example_env example_hass 0) = Inl (KeyError ''tuya'')
   \<and> calls (fst (async_remove_entry example_const example_env example_hass 0))
       = [LoggerDebug ''remove entry id = %s'' [PStr ''e1'']]
   \<and> stored_session active_hass ''e2'' = None
   \<and> snd (async_remove_entry example_const example_env active_hass 1) = Inl (KeyError ''e2'')
   \<and> hass_data (fst (async_remove_entry example_const example_env active_hass 1)) = hass_data active_hass"
  using async_remove_entry_requires_session [of example_hass example_const example_env 0]
        async_remove_entry_requires_session [of active_hass example_const example_env 1]
  by (simp add: active_hass_def example_hass_def example_entry_def legacy_entry_def
        example_const_def record_call_def stored_session_def)

text \<open>
  C8. \<open>async_unload_entry\<close> writes its debug line, asks the host to unload the platforms
  and returns what the host answers; the sessions, the managers and the registry are as
  before, so an \<open>async_setup_entry\<close> that follows finds the stored session and keeps it.
\<close>

theorem async_unload_entry_keeps_sessions:
  "snd (async_unload_entry c env hass entry) = unload_platforms_result env
   \<and> hass_data (fst (async_unload_entry c env hass entry)) = hass_data hass
   \<and> managers (fst (async_unload_entry c env hass entry)) = managers hass
   \<and> next_ref (fst (async_unload_entry c env hass entry)) = next_ref hass
   \<and> config_entries (fst (async_unload_entry c env hass entry)) = config_entries hass
   \<and> device_registry (fst (async_unload_entry c env hass entry)) = device_registry hass
   \<and> calls (fst (async_unload_entry c env hass entry))
       = calls hass @ [LoggerDebug ''unload entry id = %s'' [PStr (entry_id (config_entries hass entry))],
                       UnloadPlatforms entry (PLATFORMS c)]
   \<and> (\<forall>tuya. stored_session hass (entry_id (config_entries hass entry)) = Some tuya \<longrightarrow>
        stored_session (fst (async_setup_entry c env' (fst (async_unload_entry c env hass entry)) entry))
          (entry_id (config_entries hass entry)) = Some tuya)"
proof -
  define h1 where "h1 = fst (async_unload_entry c env hass entry)"
  have keep: "hass_data h1 = hass_data hass" "config_entries h1 = config_entries hass"
    by (simp_all add: h1_def async_unload_entry_def record_call_def Let_def)
  have cycle: "stored_session (fst (async_setup_entry c env' h1 entry)) (entry_id (config_entries hass entry))
                 = Some tuya"
    if "stored_session hass (entry_id (config_entries hass entry)) = Some tuya" for tuya
  proof -
    from that have "stored_session h1 (entry_id (config_entries h1 entry)) = Some tuya"
      by (simp add: stored_session_def keep)
    from setup_with_stored_session(1) [OF this, of c env'] that
    show ?thesis
      by (simp add: stored_session_def keep)
  qed
  show ?thesis
    using cycle
    by (simp add: h1_def [symmetric] keep) (simp add: h1_def async_unload_entry_def record_call_def Let_def)
qed

theorem async_unload_entry_keeps_sessions_witness:
  "stored_session active_hass (entry_id (config_entries active_hass 0))
     = Some \<lparr>tuya_manager = 1, tuya_listener = \<lparr>dl_ref = 2, dl_manager = 1\<rparr>\<rparr>
   \<and> snd (async_unload_entry example_const example_env active_hass 0) = Inr True
   \<and> stored_session
        (fst (async_setup_entry example_const example_env
               (fst (async_unload_entry example_const example_env active_hass 0)) 0))
        (entry_id (config_entries active_hass 0))
       = Some \<lparr>tuya_manager = 1, tuya_listener = \<lparr>dl_ref = 2, dl_manager = 1\<rparr>\<rparr>"
proof -
  have stored: "stored_session active_hass (entry_id (config_entries active_hass 0))
      = Some \<lparr>tuya_manager = 1, tuya_listener = \<lparr>dl_ref = 2, dl_manager = 1\<rparr>\<rparr>"
    by (simp add: stored_session_def active_hass_def example_hass_def example_entry_def)
  from async_unload_entry_keeps_sessions [of example_const example_env active_hass 0 example_env] stored
  show ?thesis
    by (simp add: example_env_def)
qed

subsection \<open>\<open>DeviceListener\<close>\<close>

text \<open>
  C9. \<open>update_device\<close> reads \<open>self.manager.device_map[device.id]\<close> for its debug line
  before it sends anything: when the id is no key of the device map it raises \<open>KeyError\<close>
  and no call has been made; when the id is a key it writes the debug line, sends the
  signal of that device and returns.
\<close>

theorem update_device_requires_known_id:
  "(map_of (device_map (managers hass (dl_manager self))) (cd_id device) = None \<longrightarrow>
      update_device c self device hass = (hass, Inl (KeyError (cd_id device))))
   \<and> (\<forall>d. map_of (device_map (managers hass (dl_manager self))) (cd_id device) = Some d \<longrightarrow>
        snd (update_device c self device hass) = Inr ()
        \<and> calls (fst (update_device c self device hass))
            = calls hass @ [LoggerDebug ''Received update for device %s: %s'' [PStr (cd_id device), cd_status d],
                            DispatcherSend (TUYA_HA_SIGNAL_UPDATE_ENTITY c @ ''_'' @ cd_id device) None])"
  by (simp add: update_device_def getitem_def record_call_def)

theorem update_device_requires_known_id_witness:
  "map_of (device_map (managers example_hass 1)) ''zz'' = None
   \<and> update_device example_const \<lparr>dl_ref = 2, dl_manager = 1\<rparr>
        \<lparr>cd_id = ''zz'', cd_name = ''n'', cd_product_name = ''p'', cd_status = PNone\<rparr> example_hass
      = (example_hass, Inl (KeyError ''zz''))
   \<and> map_of (device_map (managers example_hass 1)) ''a''
       = Some \<lparr>cd_id = ''a'', cd_name = ''Lamp'', cd_product_name = ''L1'', cd_status = PNone\<rparr>
   \<and> snd (update_device example_const \<lparr>dl_ref = 2, dl_manager = 1\<rparr>
        \<lparr>cd_id = ''a'', cd_name = ''n'', cd_product_name = ''p'', cd_status = PInt 1\<rparr> example_hass) = Inr ()
   \<and> calls (fst (update_device example_const \<lparr>dl_ref = 2, dl_manager = 1\<rparr>
        \<lparr>cd_id = ''a'', cd_name = ''n'', cd_product_name = ''p'', cd_status = PInt 1\<rparr> example_hass))
       = [LoggerDebug ''Received update for device %s: %s'' [PStr ''a'', PNone],
          DispatcherSend ''tuya_entry_update_a'' None]"
  using update_device_requires_known_id [of example_hass "\<lparr>dl_ref = 2, dl_manager = 1\<rparr>"
          "\<lparr>cd_id = ''zz'', cd_name = ''n'', cd_product_name = ''p'', cd_status = PNone\<rparr>" example_const]
        update_device_requires_known_id [of example_hass "\<lparr>dl_ref = 2, dl_manager = 1\<rparr>"
          "\<lparr>cd_id = ''a'', cd_name = ''n'', cd_product_name = ''p'', cd_status = PInt 1\<rparr>" example_const]
  by (simp add: example_hass_def example_manager_def example_const_def)

text \<open>
  C7. \<open>async_remove_device\<close> leaves the registry as it is when no entry carries the
  identifier of this domain and device id. In a registry where the entries that carry the
  identifier share one internal id (the host keeps an identifier with one device), no entry
  carries it after the removal, and a second removal changes nothing more.
\<close>

theorem async_remove_device_idempotent:
  "((\<forall>e \<in> set (device_registry hass). (DOMAIN c, device_id) \<notin> set (de_identifiers e)) \<longrightarrow>
      device_registry (async_remove_device c self device_id hass) = device_registry hass)
   \<and> ((\<forall>e1 \<in> set (device_registry hass). \<forall>e2 \<in> set (device_registry hass).
          (DOMAIN c, device_id) \<in> set (de_identifiers e1) \<and> (DOMAIN c, device_id) \<in> set (de_identifiers e2)
            \<longrightarrow> de_id e1 = de_id e2) \<longrightarrow>
       (\<forall>e \<in> set (device_registry (async_remove_device c self device_id hass)).
          (DOMAIN c, device_id) \<notin> set (de_identifiers e))
       \<and> device_registry (async_remove_device c self' device_id (async_remove_device c self device_id hass))
           = device_registry (async_remove_device c self device_id hass))"
proof -
  have noop: "device_registry (async_remove_device c s device_id h) = device_registry h"
    if "\<forall>e \<in> set (device_registry h). (DOMAIN c, device_id) \<notin> set (de_identifiers e)" for s h
  proof -
    from that have "dr_async_get_device (device_registry h) [(DOMAIN c, device_id)] = None"
      by (simp add: dr_async_get_device_def find_None_iff)
    then show ?thesis
      by (simp add: async_remove_device_def record_call_def Let_def)
  qed
  have gone: "\<forall>e \<in> set (device_registry (async_remove_device c self device_id hass)).
                (DOMAIN c, device_id) \<notin> set (de_identifiers e)"
    if u: "\<forall>e1 \<in> set (device_registry hass). \<forall>e2 \<in> set (device_registry hass).
          (DOMAIN c, device_id) \<in> set (de_identifiers e1) \<and> (DOMAIN c, device_id) \<in> set (de_identifiers e2)
            \<longrightarrow> de_id e1 = de_id e2"
  proof (cases "dr_async_get_device (device_registry hass) [(DOMAIN c, device_id)]")
    case None
    then have no: "\<forall>e \<in> set (device_registry hass). (DOMAIN c, device_id) \<notin> set (de_identifiers e)"
      by (simp add: dr_async_get_device_def find_None_iff)
    then show ?thesis
      using noop [of hass self] by simp
  next
    case (Some found)
    then have f: "found \<in> set (device_registry hass)"
        "(DOMAIN c, device_id) \<in> set (de_identifiers found)"
      by (auto simp add: dr_async_get_device_def find_Some_iff)
    have reg: "device_registry (async_remove_device c self device_id hass)
                 = filter (\<lambda>e. de_id e \<noteq> de_id found) (device_registry hass)"
      using Some by (simp add: async_remove_device_def record_call_def Let_def dr_async_remove_device_def)
    show ?thesis
      unfolding reg
    proof
      fix e
      assume "e \<in> set (filter (\<lambda>e. de_id e \<noteq> de_id found) (device_registry hass))"
      then have e: "e \<in> set (device_registry hass)" "de_id e \<noteq> de_id found"
        by simp_all
      show "(DOMAIN c, device_id) \<notin> set (de_identifiers e)"
      proof
        assume "(DOMAIN c, device_id) \<in> set (de_identifiers e)"
        with u e(1) f have "de_id e = de_id found"
          by blast
        with e(2) show False
          by simp
      qed
    qed
  qed
  show ?thesis
  proof (intro conjI impI)
    assume "\<forall>e \<in> set (device_registry hass). (DOMAIN c, device_id) \<notin> set (de_identifiers e)"
    then show "device_registry (async_remove_device c self device_id hass) = device_registry hass"
      by (rule noop)
  next
    assume "\<forall>e1 \<in> set (device_registry hass). \<forall>e2 \<in> set (device_registry hass).
          (DOMAIN c, device_id) \<in> set (de_identifiers e1) \<and> (DOMAIN c, device_id) \<in> set (de_identifiers e2)
            \<longrightarrow> de_id e1 = de_id e2"
    then show "\<forall>e \<in> set (device_registry (async_remove_device c self device_id hass)).
          (DOMAIN c, device_id) \<notin> set (de_identifiers e)"
      by (rule gone)
  next
    assume "\<forall>e1 \<in> set (device_registry hass). \<forall>e2 \<in> set (device_registry hass).
          (DOMAIN c, device_id) \<in> set (de_identifiers e1) \<and> (DOMAIN c, device_id) \<in> set (de_identifiers e2)
            \<longrightarrow> de_id e1 = de_id e2"
    then have "\<forall>e \<in> set (device_registry (async_remove_device c self device_id hass)).
          (DOMAIN c, device_id) \<notin> set (de_identifiers e)"
      by (rule gone)
    then show "device_registry (async_remove_device c self' device_id (async_remove_device c self device_id hass))
           = device_registry (async_remove_device c self device_id hass)"
      by (rule noop)
  qed
qed

theorem async_remove_device_idempotent_witness:
  "filter (\<lambda>e. (DOMAIN example_const, ''zz'') \<in> set (de_identifiers e)) (device_registry example_hass) = []
   \<and> device_registry (async_remove_device example_const \<lparr>dl_ref = 2, dl_manager = 1\<rparr> ''zz'' example_hass)
       = example_registry
   \<and> map de_id (device_registry (async_remove_device example_const \<lparr>dl_ref = 2, dl_manager = 1\<rparr> ''a''
                                   example_hass)) = [2]
   \<and> map de_id (device_registry
        (async_remove_device example_const \<lparr>dl_ref = 2, dl_manager = 1\<rparr> ''a''
          (async_remove_device example_const \<lparr>dl_ref = 2, dl_manager = 1\<rparr> ''a'' example_hass))) = [2]"
proof -
  have none: "\<forall>e \<in> set (device_registry example_hass). (DOMAIN example_const, ''zz'') \<notin> set (de_identifiers e)"
    by (simp add: example_hass_def example_registry_def example_const_def)
  have one: "\<forall>e1 \<in> set (device_registry example_hass). \<forall>e2 \<in> set (device_registry example_hass).
          (DOMAIN example_const, ''a'') \<in> set (de_identifiers e1)
          \<and> (DOMAIN example_const, ''a'') \<in> set (de_identifiers e2) \<longrightarrow> de_id e1 = de_id e2"
    by (simp add: example_hass_def example_registry_def example_const_def)
  have once: "map de_id (device_registry (async_remove_device example_const \<lparr>dl_ref = 2, dl_manager = 1\<rparr> ''a''
                                   example_hass)) = [2]"
    by (simp add: async_remove_device_def record_call_def Let_def dr_async_get_device_def
          dr_async_remove_device_def example_hass_def example_registry_def example_const_def)
  from async_remove_device_idempotent [of example_hass example_const "''zz''"
         "\<lparr>dl_ref = 2, dl_manager = 1\<rparr>" "\<lparr>dl_ref = 2, dl_manager = 1\<rparr>"] none
  have a: "device_registry (async_remove_device example_const \<lparr>dl_ref = 2, dl_manager = 1\<rparr> ''zz'' example_hass)
             = example_registry"
    by (simp add: example_hass_def)
  from async_remove_device_idempotent [of example_hass example_const "''a''"
         "\<lparr>dl_ref = 2, dl_manager = 1\<rparr>" "\<lparr>dl_ref = 2, dl_manager = 1\<rparr>"] one
  have b: "device_registry
        (async_remove_device example_const \<lparr>dl_ref = 2, dl_manager = 1\<rparr> ''a''
          (async_remove_device example_const \<lparr>dl_ref = 2, dl_manager = 1\<rparr> ''a'' example_hass))
      = device_registry (async_remove_device example_const \<lparr>dl_ref = 2, dl_manager = 1\<rparr> ''a'' example_hass)"
    by blast
  have empty: "filter (\<lambda>e. (DOMAIN example_const, ''zz'') \<in> set (de_identifiers e))
                 (device_registry example_hass) = []"
    by (simp add: example_hass_def example_registry_def example_const_def)
  show ?thesis
    using empty a once b by simp
qed

end
